theory Spec2Isabelle
  imports Complex_Main
begin

section \<open>Data model\<close>

text \<open>
  The rows of the three tables that main.py queries. Each column has the type that
  its Column declaration and the response schema of schemas.py give it: Integer is
  \<open>int\<close>, Boolean is \<open>bool\<close>, String is \<open>string\<close>, and a column that the schemas
  type as Optional is an \<open>option\<close>. Float columns are modelled as \<open>real\<close>: the
  arithmetic of the model is exact, where Python rounds to a double.
\<close>

record date =
  date_year :: nat
  date_month :: nat
  date_day :: nat

record datetime =
  datetime_year :: nat
  datetime_month :: nat
  datetime_day :: nat
  datetime_hour :: nat
  datetime_minute :: nat
  datetime_second :: nat
  datetime_microsecond :: nat

record Product =
  Product_id :: int
  Product_name :: string
  Product_price :: real
  Product_category_id :: int
  Product_description :: "string option"
  Product_image :: "string option"
  Product_is_sale :: bool
  Product_sale_price :: real

record Customer =
  Customer_id :: int
  Customer_first_name :: string
  Customer_last_name :: string
  Customer_phone :: "string option"
  Customer_email :: string
  Customer_password :: string

record Order =
  Order_id :: int
  Order_product_id :: int
  Order_customer_id :: int
  Order_quantity :: int
  Order_address :: "string option"
  Order_phone :: "string option"
  Order_date :: "date option"
  Order_status :: bool
  Order_date_shipped :: "datetime option"

text \<open>
  Modelled from the spec: the data store. database.py (SessionLocal, engine, Base) is
  not among the sources; the spec describes a relational store holding the record
  types, reached through a query interface. A session is the three tables, each a
  list of rows in the store's row order.
\<close>

record db =
  products :: "Product list"
  customers :: "Customer list"
  orders :: "Order list"

text \<open>
  Modelled from the spec: the primary key that the store gives a row inserted
  without one (the engine is not among the sources). The model takes one more than
  the largest key of the table.
\<close>

definition next_id :: "int list \<Rightarrow> int" where
  "next_id ids = fold max ids 0 + 1"

text \<open>
  Modelled from the spec: what commit does to a changed row. The store rewrites the
  row with the primary key of the changed object.
\<close>

definition commit_row :: "('r \<Rightarrow> int) \<Rightarrow> 'r \<Rightarrow> 'r list \<Rightarrow> 'r list" where
  "commit_row key r rows = map (\<lambda>x. if key x = key r then r else x) rows"

datatype error = HTTPException nat string | IntegrityError string

subsection \<open>Request payloads (schemas.py)\<close>


record CustomerCreate =
  CustomerCreate_first_name :: string
  CustomerCreate_last_name :: string
  CustomerCreate_phone :: "string option"
  CustomerCreate_email :: string
  CustomerCreate_password :: string


record OrderUpdate =
  OrderUpdate_product_id :: "int option"
  OrderUpdate_customer_id :: "int option"
  OrderUpdate_quantity :: "int option"
  OrderUpdate_address :: "string option option"
  OrderUpdate_phone :: "string option option"
  OrderUpdate_status :: "bool option"

subsection \<open>Responses\<close>

record OrderItem =
  OrderItem_product_name :: string
  OrderItem_quantity :: int
  OrderItem_price :: real

record DjangoOrderResponse =
  DjangoOrderResponse_id :: int
  DjangoOrderResponse_full_name :: string
  DjangoOrderResponse_email :: string
  DjangoOrderResponse_shipping_address :: string
  DjangoOrderResponse_amount_paid :: real
  DjangoOrderResponse_date_ordered :: "string option"
  DjangoOrderResponse_shipped :: bool
  DjangoOrderResponse_date_shipped :: "string option"
  DjangoOrderResponse_items_list :: "OrderItem list"



section \<open>Strings and dates\<close>

fun str_nat :: "nat \<Rightarrow> string" where
  "str_nat n =
     (if n < 10 then [''0123456789'' ! n]
      else str_nat (n div 10) @ [''0123456789'' ! (n mod 10)])"

declare str_nat.simps [simp del]


definition zfill :: "nat \<Rightarrow> string \<Rightarrow> string" where
  "zfill w s = replicate (w - length s) CHR ''0'' @ s"

text \<open>The format \<open>%Y-%m-%d\<close> of strftime, and date.isoformat, which prints the same.\<close>

definition strftime_date :: "date \<Rightarrow> string" where
  "strftime_date d =
     zfill 4 (str_nat (date_year d)) @ ''-'' @ zfill 2 (str_nat (date_month d)) @ ''-''
       @ zfill 2 (str_nat (date_day d))"

text \<open>The format \<open>%Y-%m-%d %H:%M\<close> of strftime.\<close>

definition strftime_datetime :: "datetime \<Rightarrow> string" where
  "strftime_datetime t =
     zfill 4 (str_nat (datetime_year t)) @ ''-'' @ zfill 2 (str_nat (datetime_month t)) @ ''-''
       @ zfill 2 (str_nat (datetime_day t)) @ '' '' @ zfill 2 (str_nat (datetime_hour t)) @ '':''
       @ zfill 2 (str_nat (datetime_minute t))"


text \<open>
  str.strip() with no argument removes leading and trailing whitespace; on the bytes
  of a \<open>string\<close> these are the ASCII whitespace characters.
\<close>

definition isspace :: "char \<Rightarrow> bool" where
  "isspace c = (c \<in> set [CHR '' '', CHR 0x09, CHR 0x0A, CHR 0x0B, CHR 0x0C, CHR 0x0D,
                          CHR 0x1C, CHR 0x1D, CHR 0x1E, CHR 0x1F])"

definition strip :: "string \<Rightarrow> string" where
  "strip s = rev (dropWhile isspace (rev (dropWhile isspace s)))"

section \<open>The pricing rule of the spec\<close>


section \<open>Order enrichment\<close>

definition enrich_order_details :: "Order \<Rightarrow> db \<Rightarrow> DjangoOrderResponse option" where
  "enrich_order_details order db =
     (let product = find (\<lambda>p. Product_id p = Order_product_id order) (products db);
          customer = find (\<lambda>c. Customer_id c = Order_customer_id order) (customers db)
      in case (product, customer) of
           (None, _) \<Rightarrow> None
         | (_, None) \<Rightarrow> None
         | (Some product, Some customer) \<Rightarrow>
             (let price = (if Product_is_sale product \<and> Product_sale_price product > 0
                           then Product_sale_price product else Product_price product);
                  amount_paid = price * of_int (Order_quantity order)
              in Some \<lparr>
                   DjangoOrderResponse_id = Order_id order,
                   DjangoOrderResponse_full_name =
                     strip (Customer_first_name customer @ '' '' @ Customer_last_name customer),
                   DjangoOrderResponse_email = Customer_email customer,
                   DjangoOrderResponse_shipping_address =
                     (case Order_address order of
                        None \<Rightarrow> ''No address provided''
                      | Some a \<Rightarrow> if a = [] then ''No address provided'' else a),
                   DjangoOrderResponse_amount_paid = amount_paid,
                   DjangoOrderResponse_date_ordered = map_option strftime_date (Order_date order),
                   DjangoOrderResponse_shipped = Order_status order,
                   DjangoOrderResponse_date_shipped =
                     map_option strftime_datetime (Order_date_shipped order),
                   DjangoOrderResponse_items_list =
                     [\<lparr>OrderItem_product_name = Product_name product,
                       OrderItem_quantity = Order_quantity order,
                       OrderItem_price = price\<rparr>]\<rparr>))"

section \<open>Order endpoints\<close>




subsection \<open>The partial update of an order\<close>

text \<open>
  One item of \<open>order.dict(exclude_unset=True)\<close>: the key, with a value of the key's type.
\<close>

datatype OrderUpdate_item =
    Item_product_id int
  | Item_customer_id int
  | Item_quantity int
  | Item_address "string option"
  | Item_phone "string option"
  | Item_status bool

definition unset_dropped :: "('a \<Rightarrow> 'i) \<Rightarrow> 'a option \<Rightarrow> 'i list" where
  "unset_dropped item field = (case field of None \<Rightarrow> [] | Some v \<Rightarrow> [item v])"

text \<open>The items are in the order of the fields of the schema.\<close>

definition OrderUpdate_dict_exclude_unset :: "OrderUpdate \<Rightarrow> OrderUpdate_item list" where
  "OrderUpdate_dict_exclude_unset order =
     unset_dropped Item_product_id (OrderUpdate_product_id order)
     @ unset_dropped Item_customer_id (OrderUpdate_customer_id order)
     @ unset_dropped Item_quantity (OrderUpdate_quantity order)
     @ unset_dropped Item_address (OrderUpdate_address order)
     @ unset_dropped Item_phone (OrderUpdate_phone order)
     @ unset_dropped Item_status (OrderUpdate_status order)"

fun setattr_Order :: "Order \<Rightarrow> OrderUpdate_item \<Rightarrow> Order" where
  "setattr_Order db_order (Item_product_id value) = db_order\<lparr>Order_product_id := value\<rparr>"
| "setattr_Order db_order (Item_customer_id value) = db_order\<lparr>Order_customer_id := value\<rparr>"
| "setattr_Order db_order (Item_quantity value) = db_order\<lparr>Order_quantity := value\<rparr>"
| "setattr_Order db_order (Item_address value) = db_order\<lparr>Order_address := value\<rparr>"
| "setattr_Order db_order (Item_phone value) = db_order\<lparr>Order_phone := value\<rparr>"
| "setattr_Order db_order (Item_status value) = db_order\<lparr>Order_status := value\<rparr>"

text \<open>
  The body of the loop over the items: the shipping rule when the key is status, then
  the setattr. \<open>now\<close> is the value of datetime.datetime.now().
\<close>

fun update_order_item :: "datetime \<Rightarrow> OrderUpdate_item \<Rightarrow> Order \<Rightarrow> Order" where
  "update_order_item now (Item_status value) db_order =
     setattr_Order
       (if value \<and> Order_date_shipped db_order = None
        then db_order\<lparr>Order_date_shipped := Some now\<rparr>
        else if \<not> value then db_order\<lparr>Order_date_shipped := None\<rparr>
        else db_order)
       (Item_status value)"
| "update_order_item now item db_order = setattr_Order db_order item"

fun update_order_loop :: "datetime \<Rightarrow> OrderUpdate_item list \<Rightarrow> Order \<Rightarrow> Order" where
  "update_order_loop now [] db_order = db_order"
| "update_order_loop now (item # update_data) db_order =
     update_order_loop now update_data (update_order_item now item db_order)"

definition update_order ::
  "int \<Rightarrow> OrderUpdate \<Rightarrow> datetime \<Rightarrow> db \<Rightarrow> error + (DjangoOrderResponse option \<times> db)" where
  "update_order order_id order now db =
     (case find (\<lambda>x. Order_id x = order_id) (orders db) of
        None \<Rightarrow> Inl (HTTPException 404 ''Order not found'')
      | Some db_order \<Rightarrow>
          (let update_data = OrderUpdate_dict_exclude_unset order;
               db_order = update_order_loop now update_data db_order;
               db = db\<lparr>orders := commit_row Order_id db_order (orders db)\<rparr>
           in Inr (enrich_order_details db_order db, db)))"

subsection \<open>Legacy endpoints\<close>



section \<open>Product and customer endpoints\<close>






definition create_customer :: "CustomerCreate \<Rightarrow> db \<Rightarrow> Customer \<times> db" where
  "create_customer customer db =
     (case find (\<lambda>c. Customer_email c = CustomerCreate_email customer) (customers db) of
        Some existing \<Rightarrow> (existing, db)
      | None \<Rightarrow>
          (let db_customer = \<lparr>
                 Customer_id = next_id (map Customer_id (customers db)),
                 Customer_first_name = CustomerCreate_first_name customer,
                 Customer_last_name = CustomerCreate_last_name customer,
                 Customer_phone = CustomerCreate_phone customer,
                 Customer_email = CustomerCreate_email customer,
                 Customer_password = CustomerCreate_password customer\<rparr>
           in (db_customer, db\<lparr>customers := customers db @ [db_customer]\<rparr>)))"

section \<open>Analysis endpoints\<close>






section \<open>What the properties are stated with\<close>

subsection \<open>A run of update requests and the shipping invariant\<close>

text \<open>
  The invariant of the spec: an order has a shipping date exactly when its status is
  true.
\<close>

definition date_shipped_iff_status :: "Order \<Rightarrow> bool" where
  "date_shipped_iff_status order = ((Order_status order = True) = (Order_date_shipped order \<noteq> None))"

text \<open>
  A run of requests to PUT /orders/{id}, each with its own clock reading. A request
  that fails with 404 leaves the store as it is.
\<close>

fun update_order_requests :: "(int \<times> OrderUpdate \<times> datetime) list \<Rightarrow> db \<Rightarrow> db" where
  "update_order_requests [] db = db"
| "update_order_requests ((order_id, order, now) # requests) db =
     (case update_order order_id order now db of
        Inl e \<Rightarrow> update_order_requests requests db
      | Inr (response, db') \<Rightarrow> update_order_requests requests db')"

subsection \<open>Notions of the spec used in the statements\<close>




section \<open>A small store\<close>

text \<open>
  Two products, one of them on sale, one customer, and three orders; the third order
  refers to a product that is not in the store.
\<close>

definition example_product_1 :: Product where
  "example_product_1 = \<lparr>Product_id = 1, Product_name = ''Lamp'', Product_price = 100,
     Product_category_id = 1, Product_description = Some [], Product_image = None,
     Product_is_sale = True, Product_sale_price = 80\<rparr>"

definition example_product_2 :: Product where
  "example_product_2 = \<lparr>Product_id = 2, Product_name = ''Desk'', Product_price = 50,
     Product_category_id = 1, Product_description = Some [], Product_image = None,
     Product_is_sale = False, Product_sale_price = 30\<rparr>"

definition example_customer :: Customer where
  "example_customer = \<lparr>Customer_id = 1, Customer_first_name = ''John'',
     Customer_last_name = ''Doe'', Customer_phone = None,
     Customer_email = ''john.doe@example.com'', Customer_password = ''password''\<rparr>"

definition example_order_1 :: Order where
  "example_order_1 = \<lparr>Order_id = 1, Order_product_id = 1, Order_customer_id = 1,
     Order_quantity = 3, Order_address = Some ''123 Main St'', Order_phone = Some [],
     Order_date = Some \<lparr>date_year = 2024, date_month = 5, date_day = 17\<rparr>,
     Order_status = False, Order_date_shipped = None\<rparr>"

definition example_order_2 :: Order where
  "example_order_2 = \<lparr>Order_id = 2, Order_product_id = 2, Order_customer_id = 1,
     Order_quantity = 5, Order_address = Some ''456 Oak Ave'', Order_phone = Some [],
     Order_date = Some \<lparr>date_year = 2024, date_month = 5, date_day = 18\<rparr>,
     Order_status = True,
     Order_date_shipped = Some \<lparr>datetime_year = 2024, datetime_month = 5, datetime_day = 19,
       datetime_hour = 9, datetime_minute = 30, datetime_second = 0,
       datetime_microsecond = 0\<rparr>\<rparr>"

definition example_order_3 :: Order where
  "example_order_3 = \<lparr>Order_id = 3, Order_product_id = 9, Order_customer_id = 1,
     Order_quantity = 1, Order_address = None, Order_phone = None,
     Order_date = None, Order_status = False, Order_date_shipped = None\<rparr>"

definition example_db :: db where
  "example_db = \<lparr>products = [example_product_1, example_product_2],
     customers = [example_customer],
     orders = [example_order_1, example_order_2, example_order_3]\<rparr>"

definition example_now :: datetime where
  "example_now = \<lparr>datetime_year = 2024, datetime_month = 6, datetime_day = 1,
     datetime_hour = 12, datetime_minute = 0, datetime_second = 30,
     datetime_microsecond = 250\<rparr>"

definition example_ship :: OrderUpdate where
  "example_ship = \<lparr>OrderUpdate_product_id = None, OrderUpdate_customer_id = None,
     OrderUpdate_quantity = None, OrderUpdate_address = None, OrderUpdate_phone = None,
     OrderUpdate_status = Some True\<rparr>"

definition example_unship :: OrderUpdate where
  "example_unship = \<lparr>OrderUpdate_product_id = None, OrderUpdate_customer_id = None,
     OrderUpdate_quantity = Some 4, OrderUpdate_address = None, OrderUpdate_phone = None,
     OrderUpdate_status = Some False\<rparr>"

definition example_signup :: CustomerCreate where
  "example_signup = \<lparr>CustomerCreate_first_name = ''Jane'', CustomerCreate_last_name = ''Roe'',
     CustomerCreate_phone = None, CustomerCreate_email = ''jane.roe@example.com'',
     CustomerCreate_password = ''secret''\<rparr>"

definition example_signup_again :: CustomerCreate where
  "example_signup_again = \<lparr>CustomerCreate_first_name = ''J.'', CustomerCreate_last_name = ''R.'',
     CustomerCreate_phone = Some ''555'', CustomerCreate_email = ''jane.roe@example.com'',
     CustomerCreate_password = ''other''\<rparr>"




lemmas example_defs = example_db_def example_product_1_def example_product_2_def
  example_customer_def example_order_1_def example_order_2_def example_order_3_def

section \<open>Properties of the operations\<close>

subsection \<open>Enrichment and the loops of the analysis endpoints\<close>






subsection \<open>Rows and commits\<close>


lemma find_commit_row_other:
  "k \<noteq> key r \<Longrightarrow>
     find (\<lambda>x. key x = k) (commit_row key r rows) = find (\<lambda>x. key x = k) rows"
  by (induction rows) (auto simp: commit_row_def)

lemma set_commit_row: "set (commit_row key r rows) \<subseteq> insert r (set rows)"
  by (auto simp: commit_row_def)

lemma find_key_Some: "find (\<lambda>x. key x = k) rows = Some r \<Longrightarrow> key r = k \<and> r \<in> set rows"
  by (induction rows) (auto split: if_splits)

subsection \<open>The loop of update_order\<close>

lemma update_order_loop_append:
  "update_order_loop now (xs @ ys) db_order =
     update_order_loop now ys (update_order_loop now xs db_order)"
  by (induction xs arbitrary: db_order) simp_all

lemma update_order_loop_unset_dropped:
  "update_order_loop now (unset_dropped item field) db_order =
     (case field of None \<Rightarrow> db_order | Some v \<Rightarrow> update_order_item now (item v) db_order)"
  by (simp add: unset_dropped_def split: option.splits)

lemma update_order_loop_status:
  "Order_status (update_order_loop now (OrderUpdate_dict_exclude_unset order) db_order) =
     (case OrderUpdate_status order of None \<Rightarrow> Order_status db_order | Some value \<Rightarrow> value)"
  by (simp add: OrderUpdate_dict_exclude_unset_def update_order_loop_append
      update_order_loop_unset_dropped split: option.splits)

lemma update_order_loop_date_shipped:
  "Order_date_shipped (update_order_loop now (OrderUpdate_dict_exclude_unset order) db_order) =
     (case OrderUpdate_status order of
        None \<Rightarrow> Order_date_shipped db_order
      | Some value \<Rightarrow>
          if value then (case Order_date_shipped db_order of None \<Rightarrow> Some now | Some t \<Rightarrow> Some t)
          else None)"
  by (simp add: OrderUpdate_dict_exclude_unset_def update_order_loop_append
      update_order_loop_unset_dropped split: option.splits)


subsection \<open>Order creation and the analysis endpoints\<close>




subsection \<open>The order update endpoint\<close>

lemma update_order_found:
  assumes "find (\<lambda>x. Order_id x = order_id) (orders db) = Some db_order"
  shows "update_order order_id order now db =
     Inr (enrich_order_details
            (update_order_loop now (OrderUpdate_dict_exclude_unset order) db_order)
            (db\<lparr>orders := commit_row Order_id
               (update_order_loop now (OrderUpdate_dict_exclude_unset order) db_order)
               (orders db)\<rparr>),
          db\<lparr>orders := commit_row Order_id
               (update_order_loop now (OrderUpdate_dict_exclude_unset order) db_order)
               (orders db)\<rparr>)"
  using assms by (simp add: update_order_def Let_def)

lemma update_order_not_found:
  assumes "find (\<lambda>x. Order_id x = order_id) (orders db) = None"
  shows "update_order order_id order now db = Inl (HTTPException 404 ''Order not found'')"
  using assms by (simp add: update_order_def)


lemma update_order_loop_invariant:
  assumes "date_shipped_iff_status db_order"
  shows "date_shipped_iff_status
           (update_order_loop now (OrderUpdate_dict_exclude_unset order) db_order)"
  using assms
  by (simp add: date_shipped_iff_status_def update_order_loop_status
      update_order_loop_date_shipped split: option.splits)

lemma update_order_invariant:
  assumes inv: "\<forall>x\<in>set (orders db). date_shipped_iff_status x"
    and upd: "update_order order_id order now db = Inr (response, db')"
  shows "\<forall>x\<in>set (orders db'). date_shipped_iff_status x"
proof (cases "find (\<lambda>x. Order_id x = order_id) (orders db)")
  case None
  with upd show ?thesis by (simp add: update_order_not_found)
next
  case (Some db_order)
  let ?o = "update_order_loop now (OrderUpdate_dict_exclude_unset order) db_order"
  have "db_order \<in> set (orders db)"
    using find_key_Some [of Order_id order_id "orders db" db_order] Some by simp
  with inv have "date_shipped_iff_status db_order" by simp
  then have o: "date_shipped_iff_status ?o" by (rule update_order_loop_invariant)
  from upd have db': "db' = db\<lparr>orders := commit_row Order_id ?o (orders db)\<rparr>"
    by (simp add: update_order_found [OF Some])
  have "set (orders db') \<subseteq> insert ?o (set (orders db))"
    by (simp add: db' set_commit_row)
  with inv o show ?thesis by auto
qed

lemma update_order_requests_invariant:
  assumes "\<forall>x\<in>set (orders db). date_shipped_iff_status x"
  shows "\<forall>x\<in>set (orders (update_order_requests requests db)). date_shipped_iff_status x"
  using assms
proof (induction requests arbitrary: db)
  case Nil
  then show ?case by simp
next
  case (Cons request requests)
  obtain order_id order now where r: "request = (order_id, order, now)"
    by (cases request)
  show ?case
  proof (cases "update_order order_id order now db")
    case (Inl e)
    with r Cons show ?thesis by simp
  next
    case (Inr result)
    obtain response db' where res: "result = (response, db')" by (cases result)
    have "\<forall>x\<in>set (orders db'). date_shipped_iff_status x"
      using update_order_invariant [OF Cons.prems] Inr res by simp
    from Cons.IH [OF this] Inr res r show ?thesis by simp
  qed
qed

subsection \<open>The list endpoints\<close>







subsection \<open>The analysis endpoints\<close>










subsection \<open>Customer creation\<close>

lemma find_snoc:
  "find P (xs @ [x]) =
     (case find P xs of None \<Rightarrow> (if P x then Some x else None) | Some y \<Rightarrow> Some y)"
  by (induction xs) simp_all

lemma create_customer_existing:
  assumes "find (\<lambda>c. Customer_email c = CustomerCreate_email customer) (customers db)
             = Some existing"
  shows "create_customer customer db = (existing, db)"
  using assms by (simp add: create_customer_def)

lemma create_customer_twice:
  assumes "create_customer customer db = (first, db1)"
    and "CustomerCreate_email again = CustomerCreate_email customer"
  shows "find (\<lambda>c. Customer_email c = CustomerCreate_email again) (customers db1) = Some first"
proof (cases "find (\<lambda>c. Customer_email c = CustomerCreate_email customer) (customers db)")
  case None
  with assms show ?thesis
    by (auto simp: create_customer_def Let_def find_snoc)
next
  case (Some existing)
  with assms show ?thesis
    by (simp add: create_customer_existing)
qed

subsection \<open>The fields that an order update commits\<close>







subsection \<open>The product upsert\<close>















section \<open>The claims\<close>







text \<open>
  C4. The order update endpoint keeps the invariant that an order's status is true
  exactly when it has a shipping date: when it holds of every order before an update
  it holds of every order after it, and so after any run of updates.
\<close>

theorem update_order_keeps_date_shipped_iff_status:
  assumes "\<forall>x\<in>set (orders db). date_shipped_iff_status x"
  shows "(\<forall>response db'. update_order order_id order now db = Inr (response, db') \<longrightarrow>
            (\<forall>x\<in>set (orders db'). date_shipped_iff_status x))
       \<and> (\<forall>x\<in>set (orders (update_order_requests requests db)). date_shipped_iff_status x)"
proof (intro conjI allI impI)
  fix response db'
  assume "update_order order_id order now db = Inr (response, db')"
  with assms show "\<forall>x\<in>set (orders db'). date_shipped_iff_status x"
    by (rule update_order_invariant)
next
  from assms show "\<forall>x\<in>set (orders (update_order_requests requests db)). date_shipped_iff_status x"
    by (rule update_order_requests_invariant)
qed

theorem update_order_keeps_date_shipped_iff_status_witness:
  "list_all date_shipped_iff_status (orders example_db)
   \<and> (\<exists>response db'. update_order 1 example_ship example_now example_db = Inr (response, db')
        \<and> list_all date_shipped_iff_status (orders db'))
   \<and> list_all date_shipped_iff_status (orders (update_order_requests
          [(1, example_ship, example_now), (2, example_unship, example_now),
           (7, example_ship, example_now)] example_db))"
proof -
  have inv: "\<forall>x\<in>set (orders example_db). date_shipped_iff_status x"
    by (simp add: example_defs date_shipped_iff_status_def)
  note t = update_order_keeps_date_shipped_iff_status [OF inv]
  have f: "find (\<lambda>x. Order_id x = 1) (orders example_db) = Some example_order_1"
    by (simp add: example_defs)
  have "\<exists>response db'. update_order 1 example_ship example_now example_db = Inr (response, db')"
    by (simp add: update_order_found [OF f])
  then obtain response db' where
    u: "update_order 1 example_ship example_now example_db = Inr (response, db')"
    by auto
  from t [of 1 example_ship example_now, THEN conjunct1, rule_format, OF u] u
  have step: "\<exists>response db'. update_order 1 example_ship example_now example_db = Inr (response, db')
        \<and> list_all date_shipped_iff_status (orders db')"
    by (auto simp: list_all_iff)
  have run: "list_all date_shipped_iff_status (orders (update_order_requests
          [(1, example_ship, example_now), (2, example_unship, example_now),
           (7, example_ship, example_now)] example_db))"
    using t [THEN conjunct2] by (simp only: list_all_iff)
  from inv have inv': "list_all date_shipped_iff_status (orders example_db)"
    by (simp only: list_all_iff)
  from inv' step run show ?thesis by (intro conjI)
qed







text \<open>
  C8. Customer creation is idempotent by email. After a first creation has returned a
  record, a second creation with the same email (whatever its other fields) returns
  that same record and leaves the store as the first call left it, so there is no
  second record; and a creation with an email that is registered returns the
  registered record and changes nothing. The call has no error result.
\<close>

theorem create_customer_idempotent_by_email:
  assumes "create_customer customer db = (first, db1)"
    and "CustomerCreate_email again = CustomerCreate_email customer"
  shows "create_customer again db1 = (first, db1)
     \<and> Customer_email first = CustomerCreate_email customer
     \<and> (\<forall>existing.
           find (\<lambda>c. Customer_email c = CustomerCreate_email customer) (customers db)
             = Some existing
           \<longrightarrow> first = existing \<and> db1 = db)
     \<and> (find (\<lambda>c. Customer_email c = CustomerCreate_email customer) (customers db) = None
           \<longrightarrow> customers db1 = customers db @ [first])"
proof -
  have f: "find (\<lambda>c. Customer_email c = CustomerCreate_email again) (customers db1) = Some first"
    by (rule create_customer_twice [OF assms])
  then have 1: "create_customer again db1 = (first, db1)"
    by (rule create_customer_existing)
  have 2: "Customer_email first = CustomerCreate_email customer"
    using find_key_Some [of Customer_email "CustomerCreate_email again" "customers db1" first]
      f assms(2)
    by (auto dest: find_Some_iff [THEN iffD1])
  have 3: "\<forall>existing.
           find (\<lambda>c. Customer_email c = CustomerCreate_email customer) (customers db)
             = Some existing
           \<longrightarrow> first = existing \<and> db1 = db"
    using assms(1) by (auto simp: create_customer_existing)
  have 4: "find (\<lambda>c. Customer_email c = CustomerCreate_email customer) (customers db) = None
           \<longrightarrow> customers db1 = customers db @ [first]"
    using assms(1) by (auto simp: create_customer_def Let_def)
  from 1 2 3 4 show ?thesis by (intro conjI)
qed

theorem create_customer_idempotent_by_email_witness:
  "CustomerCreate_email example_signup_again = CustomerCreate_email example_signup
   \<and> (\<exists>first db1. create_customer example_signup example_db = (first, db1)
        \<and> create_customer example_signup_again db1 = (first, db1)
        \<and> Customer_id first = 2
        \<and> map Customer_id (customers db1) = [1, 2])"
proof -
  have e: "CustomerCreate_email example_signup_again = CustomerCreate_email example_signup"
    by (simp add: example_signup_def example_signup_again_def)
  obtain first db1 where c: "create_customer example_signup example_db = (first, db1)"
    by (cases "create_customer example_signup example_db")
  note t = create_customer_idempotent_by_email [OF c e]
  have n: "find (\<lambda>c. Customer_email c = CustomerCreate_email example_signup)
             (customers example_db) = None"
    by (simp add: example_defs example_signup_def)
  from t n have s: "customers db1 = customers example_db @ [first]" by simp
  from c have i: "Customer_id first = 2"
    by (auto simp: create_customer_def Let_def next_id_def example_defs example_signup_def)
  from s i have m: "map Customer_id (customers db1) = [1, 2]"
    by (simp add: example_defs)
  from t have a: "create_customer example_signup_again db1 = (first, db1)"
    by (rule conjunct1)
  from c a i m have "\<exists>first db1. create_customer example_signup example_db = (first, db1)
        \<and> create_customer example_signup_again db1 = (first, db1)
        \<and> Customer_id first = 2
        \<and> map Customer_id (customers db1) = [1, 2]"
    by (intro exI conjI)
  with e show ?thesis by (intro conjI)
qed







end
